theory Spec2Isabelle
  imports Main
begin

section \<open>Service principal certificate credentials: data model\<close>

text \<open>
  The development embeds \<^verbatim>\<open>service_principal_certificate_resource.go\<close>: the three
  operations \<^verbatim>\<open>servicePrincipalCertificateResourceCreate\<close> (Attach),
  \<^verbatim>\<open>servicePrincipalCertificateResourceRead\<close> (Read) and
  \<^verbatim>\<open>servicePrincipalCertificateResourceDelete\<close> (Detach).

  A Go \<^verbatim>\<open>error\<close> is a value of the datatype below. \<open>TimeoutError\<close> and
  \<open>UnexpectedStateError\<close> are the two typed errors of the poller, \<open>CredentialError\<close>
  carries the attribute name that \<^verbatim>\<open>kerr.Attr()\<close> reads.
\<close>

datatype error =
    Error string
  | CredentialError string string
  | TimeoutError
  | UnexpectedStateError string

text \<open>
  \<^verbatim>\<open>stable.KeyCredential\<close>: the fields the resource reads. They are nullable strings
  in the SDK; \<open>None\<close> is the nil value and \<open>GetOrZero\<close> reads a nil as the empty string.
\<close>

record KeyCredential =
  KeyId :: "string option"
  Type :: "string option"
  StartDateTime :: "string option"
  EndDateTime :: "string option"
  Key :: "string option"

definition GetOrZero :: "string option \<Rightarrow> string" where
  "GetOrZero v = (case v of None \<Rightarrow> [] | Some s \<Rightarrow> s)"

text \<open>\<^verbatim>\<open>stable.ServicePrincipal\<close>: \<open>KeyCredentials\<close> is a pointer to a slice, nil when unset.\<close>

record ServicePrincipal =
  KeyCredentials :: "KeyCredential list option"

datatype ServicePrincipalId = NewServicePrincipalID string

text \<open>
  Modelled from the spec: \<^verbatim>\<open>parse.CredentialId\<close> and \<^verbatim>\<open>parse.NewCredentialID\<close> are
  declared outside the embedded file. The composite identifier holds the principal, the
  credential kind and the key identifier, stored as they are passed.
\<close>

record CredentialId =
  ObjectId :: string
  KeyType :: string
  IdKeyId :: string

definition NewCredentialID :: "string \<Rightarrow> string \<Rightarrow> string \<Rightarrow> CredentialId" where
  "NewCredentialID objectId keyType keyId =
     \<lparr>ObjectId = objectId, KeyType = keyType, IdKeyId = keyId\<rparr>"

text \<open>
  \<^verbatim>\<open>pluginsdk.ResourceData\<close>: the stored resource identifier and the attributes.
  \<^verbatim>\<open>d.Get(k).(string)\<close> reads an unset attribute as the empty string.
\<close>

record ResourceData =
  rdId :: string
  rdAttrs :: "string \<rightharpoonup> string"

definition SetId :: "ResourceData \<Rightarrow> string \<Rightarrow> ResourceData" where
  "SetId d v = d\<lparr>rdId := v\<rparr>"

definition GetString :: "ResourceData \<Rightarrow> string \<Rightarrow> string" where
  "GetString d k = (case rdAttrs d k of None \<Rightarrow> [] | Some v \<Rightarrow> v)"

definition tfSet :: "ResourceData \<Rightarrow> string \<Rightarrow> string \<Rightarrow> ResourceData" where
  "tfSet d k v = d\<lparr>rdAttrs := (rdAttrs d)(k \<mapsto> v)\<rparr>"

text \<open>
  Modelled from the spec: \<^verbatim>\<open>tf.ErrorDiagF\<close>, \<^verbatim>\<open>tf.ErrorDiagPathF\<close> and
  \<^verbatim>\<open>tf.ImportAsExistsDiag\<close> are not part of the embedded file. Each returns one
  diagnostic for the caller: an error with its context, or the already-exists signal.
  A constructor records the arguments of the call, also when the error passed is nil; a
  message is kept as its format string and its arguments, so that no formatting function
  has to be assumed. \<open>None\<close> of \<open>diagnostic option\<close> is the nil
  \<^verbatim>\<open>pluginsdk.Diagnostics\<close>, the success value.
\<close>

datatype fmtArg = Str string | SpId ServicePrincipalId

datatype diagnostic =
    ErrorDiagF "error option" string "fmtArg list"
  | ErrorDiagPathF "error option" string string "fmtArg list"
  | ImportAsExistsDiag string string

text \<open>
  The answer of \<^verbatim>\<open>client.GetServicePrincipal\<close>: an error, with the flag that
  \<^verbatim>\<open>response.WasNotFound\<close> reads, or the model (which may be nil).
\<close>

datatype GetResponse =
    GetError bool error
  | GetModel "ServicePrincipal option"

text \<open>What an operation does to its surroundings, in program order.\<close>

datatype event =
    Lock string string
  | Unlock string string
  | CallGet ServicePrincipalId
  | CallUpdate ServicePrincipalId "KeyCredential list"

record outcome =
  diags :: "diagnostic option"
  data :: ResourceData
  trace :: "event list"

definition failWith :: "diagnostic \<Rightarrow> ResourceData \<Rightarrow> outcome" where
  "failWith dg d = \<lparr>diags = Some dg, data = d, trace = []\<rparr>"

definition emit :: "event \<Rightarrow> outcome \<Rightarrow> outcome" where
  "emit ev r = r\<lparr>trace := ev # trace r\<rparr>"

definition emits :: "event list \<Rightarrow> outcome \<Rightarrow> outcome" where
  "emits evs r = r\<lparr>trace := evs @ trace r\<rparr>"

text \<open>A Go \<^verbatim>\<open>defer\<close>: the call runs after the body has returned, on every return.\<close>

definition deferred :: "event \<Rightarrow> outcome \<Rightarrow> outcome" where
  "deferred ev r = r\<lparr>trace := trace r @ [ev]\<rparr>"

text \<open>
  Everything the file calls and does not define is a parameter of the model:
  \<^item> \<open>EqualFold\<close>: \<^verbatim>\<open>strings.EqualFold\<close> of the Go library;
  \<^item> \<open>servicePrincipalResourceName\<close>: a constant of the package;
  \<^item> \<open>KeyCredentialForResource\<close>, \<open>CertificateID\<close>, \<open>IdString\<close> (\<^verbatim>\<open>id.String()\<close>):
    helpers of the repository;
  \<^item> \<open>GetServicePrincipal\<close>: the directory's answer to the \<open>n\<close>-th fetch of an
    operation (the directory is remote and eventually consistent, so successive
    answers are unrelated);
  \<^item> \<open>UpdateServicePrincipal\<close>: the directory's answer to the replace-credentials write;
  \<^item> \<open>timeNow\<close>, \<open>ctxDeadline\<close>: the clock and the deadline of the caller's context, in
    nanoseconds (\<open>None\<close>: the context has no deadline, Go then returns the zero time);
  \<^item> \<open>pollDelay\<close>: the time, in nanoseconds, that the \<open>i\<close>-th round of a poll takes beyond
    the minimum interval (the latency of the probe, any backoff the poller adds).
\<close>

record env =
  EqualFold :: "string \<Rightarrow> string \<Rightarrow> bool"
  servicePrincipalResourceName :: string
  KeyCredentialForResource :: "ResourceData \<Rightarrow> error + KeyCredential"
  CertificateID :: "string \<Rightarrow> error + CredentialId"
  IdString :: "CredentialId \<Rightarrow> string"
  GetServicePrincipal :: "nat \<Rightarrow> ServicePrincipalId \<Rightarrow> GetResponse"
  UpdateServicePrincipal :: "ServicePrincipalId \<Rightarrow> KeyCredential list \<Rightarrow> error option"
  timeNow :: int
  ctxDeadline :: "int option"
  pollDelay :: "nat \<Rightarrow> int"

section \<open>Time and the poller's configuration\<close>

text \<open>
  Go durations are signed 64-bit nanosecond counts; \<^verbatim>\<open>time.Until(t)\<close> is
  \<^verbatim>\<open>t.Sub(time.Now())\<close>, which saturates at the bounds of the type. The zero time is
  nanosecond \<open>0\<close> of the model's clock.
\<close>

definition Second :: int where
  "Second = 1000000000"

definition maxDuration :: int where
  "maxDuration = 2 ^ 63 - 1"

definition minDuration :: int where
  "minDuration = - (2 ^ 63)"

definition Until :: "int \<Rightarrow> int \<Rightarrow> int" where
  "Until clock t = max minDuration (min maxDuration (t - clock))"

definition Deadline :: "env \<Rightarrow> int" where
  "Deadline env = (case ctxDeadline env of None \<Rightarrow> 0 | Some t \<Rightarrow> t)"

text \<open>
  \<^verbatim>\<open>pluginsdk.StateChangeConf\<close>, with the fields the resource sets. \<open>Refresh\<close> is the
  probe; its argument is the number of probes made before it in this poll.
\<close>

record 'v StateChangeConf =
  Pending :: "string list"
  Target :: "string list"
  Timeout :: int
  MinTimeout :: int
  ContinuousTargetOccurence :: nat
  Refresh :: "nat \<Rightarrow> 'v option \<times> string \<times> error option"

datatype 'v pollOutcome =
    Settled "'v option"
  | ProbeFailed error
  | TimedOut "'v option"
  | Unexpected string

definition pollError :: "'v pollOutcome \<Rightarrow> error option" where
  "pollError r =
     (case r of
        Settled v \<Rightarrow> None
      | ProbeFailed e \<Rightarrow> Some e
      | TimedOut v \<Rightarrow> Some TimeoutError
      | Unexpected l \<Rightarrow> Some (UnexpectedStateError l))"

definition pollValue :: "'v pollOutcome \<Rightarrow> 'v option" where
  "pollValue r = (case r of Settled v \<Rightarrow> v | _ \<Rightarrow> None)"

text \<open>
  Modelled from the spec: \<^verbatim>\<open>WaitForStateContext\<close> is not part of the embedded file.
  The Consistency Poller of the specification: invoke the probe; an error of the probe
  aborts the poll; a pending label resets the count of consecutive hits and the poll
  retries; a target label increments the count, and the poll succeeds with the last
  value once the count reaches the required number; any other label is an
  unexpected-state error. \<open>fuel\<close> is the number of probes that start before the
  deadline; the poll that has used them fails with a timeout carrying the last observed
  value. The second component of the result is the number of probes made.
\<close>

fun pollLoop ::
  "string list \<Rightarrow> string list \<Rightarrow> nat \<Rightarrow> (nat \<Rightarrow> 'v option \<times> string \<times> error option)
     \<Rightarrow> nat \<Rightarrow> nat \<Rightarrow> nat \<Rightarrow> 'v option \<Rightarrow> 'v pollOutcome \<times> nat" where
  "pollLoop pending target need refresh 0 i hits lastValue = (TimedOut lastValue, i)"
| "pollLoop pending target need refresh (Suc fuel) i hits lastValue =
     (case refresh i of
        (v, label, Some e) \<Rightarrow> (ProbeFailed e, Suc i)
      | (v, label, None) \<Rightarrow>
          if label \<in> set pending then pollLoop pending target need refresh fuel (Suc i) 0 v
          else if label \<in> set target then
            (if need \<le> Suc hits then (Settled v, Suc i)
             else pollLoop pending target need refresh fuel (Suc i) (Suc hits) v)
          else (Unexpected label, Suc i))"

text \<open>
  Modelled from the spec: the timing of the poller. The poll starts when it is called;
  between the start of one probe and the start of the next lie the probe itself and a
  sleep of the minimum interval, with optional backoff: at least the minimum interval
  (and at least one nanosecond), plus the delay that the environment adds. \<open>probeStart\<close>
  is the time since the start of the poll at which probe \<open>i\<close> starts.
\<close>

primrec probeStart :: "int \<Rightarrow> (nat \<Rightarrow> int) \<Rightarrow> nat \<Rightarrow> int" where
  "probeStart minInterval delay 0 = 0"
| "probeStart minInterval delay (Suc i) =
     probeStart minInterval delay i + max 1 minInterval + max 0 (delay i)"

text \<open>
  A probe is made only while the deadline has not passed, that is while its start lies
  before the timeout. \<open>pollBudget\<close> counts the probes that start before the timeout, from
  probe \<open>i\<close> on; its last argument bounds the search, and
  \<open>timeout div minInterval + 1\<close> rounds always reach the timeout.
\<close>

fun pollBudget :: "int \<Rightarrow> int \<Rightarrow> (nat \<Rightarrow> int) \<Rightarrow> nat \<Rightarrow> nat \<Rightarrow> nat" where
  "pollBudget timeout minInterval delay i 0 = i"
| "pollBudget timeout minInterval delay i (Suc bound) =
     (if probeStart minInterval delay i < timeout
      then pollBudget timeout minInterval delay (Suc i) bound
      else i)"

definition probesBeforeDeadline :: "int \<Rightarrow> int \<Rightarrow> (nat \<Rightarrow> int) \<Rightarrow> nat" where
  "probesBeforeDeadline timeout minInterval delay =
     pollBudget timeout minInterval delay 0 (Suc (nat (timeout div max 1 minInterval)))"

definition WaitForStateContext ::
  "(nat \<Rightarrow> int) \<Rightarrow> 'v StateChangeConf \<Rightarrow> 'v pollOutcome \<times> nat" where
  "WaitForStateContext delay conf =
     pollLoop (Pending conf) (Target conf) (ContinuousTargetOccurence conf) (Refresh conf)
       (probesBeforeDeadline (Timeout conf) (MinTimeout conf) delay) 0 0 None"

text \<open>
  Modelled from the spec: \<^verbatim>\<open>consistency.WaitForDeletion\<close> is not part of the embedded
  file. It runs the poller on a probe that answers whether the object still exists,
  with pending label \<open>found\<close> and target label \<open>not-found\<close>, and the default of five
  consecutive hits. It returns the error only.
\<close>

definition WaitForDeletion :: "env \<Rightarrow> (nat \<Rightarrow> error + bool) \<Rightarrow> error option \<times> nat" where
  "WaitForDeletion env f =
     (case WaitForStateContext (pollDelay env)
        \<lparr>Pending = [''found''], Target = [''not-found''],
         Timeout = Until (timeNow env) (Deadline env), MinTimeout = 1 * Second,
         ContinuousTargetOccurence = 5,
         Refresh = (\<lambda>i. case f i of
                      Inl e \<Rightarrow> (None, ''error'', Some e)
                    | Inr exists \<Rightarrow> (Some exists, if exists then ''found'' else ''not-found'', None))\<rparr>
      of
        (r, k) \<Rightarrow> (pollError r, k))"

section \<open>Credential set operations\<close>

text \<open>
  Modelled from the spec: \<^verbatim>\<open>credentials.GetKeyCredential\<close> is not part of the embedded
  file. \<open>findByKeyId\<close> of the specification: a case-insensitive linear scan that returns
  the matching descriptor or nothing; a nil slice holds nothing.
\<close>

definition GetKeyCredential ::
  "(string \<Rightarrow> string \<Rightarrow> bool) \<Rightarrow> KeyCredential list option \<Rightarrow> string \<Rightarrow> KeyCredential option" where
  "GetKeyCredential eqf keyCredentials keyId =
     (case keyCredentials of
        None \<Rightarrow> None
      | Some creds \<Rightarrow> find (\<lambda>cred. eqf (GetOrZero (KeyId cred)) keyId) creds)"

text \<open>
  The loop of Create (lines 158 to 168): copy the credentials of the fetched principal
  into a fresh slice, leave the function as soon as one of them has the key identifier
  of the new credential, then append the new credential.
\<close>

datatype conflict = AlreadyExists

fun withAdded_loop ::
  "(string \<Rightarrow> string \<Rightarrow> bool) \<Rightarrow> KeyCredential list \<Rightarrow> KeyCredential \<Rightarrow> KeyCredential list
     \<Rightarrow> conflict + KeyCredential list" where
  "withAdded_loop eqf [] credential newCredentials = Inr newCredentials"
| "withAdded_loop eqf (cred # rest) credential newCredentials =
     (if eqf (GetOrZero (KeyId cred)) (GetOrZero (KeyId credential)) then Inl AlreadyExists
      else withAdded_loop eqf rest credential (newCredentials @ [cred]))"

definition withAdded ::
  "(string \<Rightarrow> string \<Rightarrow> bool) \<Rightarrow> KeyCredential list option \<Rightarrow> KeyCredential
     \<Rightarrow> conflict + KeyCredential list" where
  "withAdded eqf keyCredentials credential =
     (case (case keyCredentials of
              None \<Rightarrow> Inr []
            | Some creds \<Rightarrow> withAdded_loop eqf creds credential []) of
        Inl c \<Rightarrow> Inl c
      | Inr newCredentials \<Rightarrow> Inr (newCredentials @ [credential]))"

text \<open>
  The loop of Delete (lines 280 to 287): copy every credential whose key identifier
  differs from the one to remove.
\<close>

fun withRemoved_loop ::
  "(string \<Rightarrow> string \<Rightarrow> bool) \<Rightarrow> KeyCredential list \<Rightarrow> string \<Rightarrow> KeyCredential list
     \<Rightarrow> KeyCredential list" where
  "withRemoved_loop eqf [] keyId newCredentials = newCredentials"
| "withRemoved_loop eqf (cred # rest) keyId newCredentials =
     (if \<not> eqf (GetOrZero (KeyId cred)) keyId
      then withRemoved_loop eqf rest keyId (newCredentials @ [cred])
      else withRemoved_loop eqf rest keyId newCredentials)"

definition withRemoved ::
  "(string \<Rightarrow> string \<Rightarrow> bool) \<Rightarrow> KeyCredential list option \<Rightarrow> string \<Rightarrow> KeyCredential list" where
  "withRemoved eqf keyCredentials keyId =
     (case keyCredentials of
        None \<Rightarrow> []
      | Some creds \<Rightarrow> withRemoved_loop eqf creds keyId [])"

section \<open>Read\<close>

text \<open>
  \<^verbatim>\<open>servicePrincipalCertificateResourceRead\<close>. The argument \<open>n\<close> is the number of
  fetches the caller has made before (0 for a Read of its own). The debug log lines
  are left out.
\<close>

definition Read :: "env \<Rightarrow> nat \<Rightarrow> ResourceData \<Rightarrow> outcome" where
  "Read env n d =
     (case CertificateID env (rdId d) of
        Inl err \<Rightarrow>
          failWith (ErrorDiagPathF (Some err) ''id''
            ''Parsing certificate credential with ID %q'' [Str (rdId d)]) d
      | Inr cid \<Rightarrow>
          let servicePrincipalId = NewServicePrincipalID (ObjectId cid) in
          emit (CallGet servicePrincipalId)
            (case GetServicePrincipal env n servicePrincipalId of
               GetError notFound err \<Rightarrow>
                 if notFound then \<lparr>diags = None, data = SetId d [], trace = []\<rparr>
                 else failWith (ErrorDiagPathF (Some err) ''service_principal_id''
                        ''Retrieving service principal with object ID %q'' [Str (ObjectId cid)]) d
             | GetModel None \<Rightarrow>
                 failWith (ErrorDiagF None ''Retrieving %s'' [SpId servicePrincipalId]) d
             | GetModel (Some servicePrincipal) \<Rightarrow>
                 (case GetKeyCredential (EqualFold env) (KeyCredentials servicePrincipal)
                         (IdKeyId cid) of
                    None \<Rightarrow> \<lparr>diags = None, data = SetId d [], trace = []\<rparr>
                  | Some credential \<Rightarrow>
                      \<lparr>diags = None,
                       data =
                         tfSet (tfSet (tfSet (tfSet (tfSet d
                           ''service_principal_id'' (ObjectId cid))
                           ''key_id'' (IdKeyId cid))
                           ''type'' (GetOrZero (Type credential)))
                           ''start_date'' (GetOrZero (StartDateTime credential)))
                           ''end_date'' (GetOrZero (EndDateTime credential)),
                       trace = []\<rparr>)))"

section \<open>Create (Attach)\<close>

text \<open>
  The probe of the confirmation poll (lines 185 to 199). It fetches the principal, which
  is fetch number \<open>Suc i\<close> of the operation, and keeps only the error of the answer; the
  credentials it scans are those of \<open>servicePrincipal\<close>, the model that the first fetch
  of Create returned.
\<close>

definition createRefresh ::
  "env \<Rightarrow> ServicePrincipalId \<Rightarrow> ServicePrincipal \<Rightarrow> CredentialId \<Rightarrow> nat
     \<Rightarrow> KeyCredential option \<times> string \<times> error option" where
  "createRefresh env servicePrincipalId servicePrincipal cid i =
     (case GetServicePrincipal env (Suc i) servicePrincipalId of
        GetError notFound err \<Rightarrow> (None, ''Error'', Some err)
      | GetModel fresh \<Rightarrow>
          (case KeyCredentials servicePrincipal of
             None \<Rightarrow> (None, ''Waiting'', None)
           | Some creds \<Rightarrow>
               (case find (\<lambda>cred. EqualFold env (GetOrZero (KeyId cred)) (IdKeyId cid)) creds of
                  Some cred \<Rightarrow> (Some cred, ''Done'', None)
                | None \<Rightarrow> (None, ''Waiting'', None))))"

definition createConf ::
  "env \<Rightarrow> ServicePrincipalId \<Rightarrow> ServicePrincipal \<Rightarrow> CredentialId
     \<Rightarrow> KeyCredential StateChangeConf" where
  "createConf env servicePrincipalId servicePrincipal cid =
     \<lparr>Pending = [''Waiting''],
      Target = [''Done''],
      Timeout = Until (timeNow env) (Deadline env),
      MinTimeout = 1 * Second,
      ContinuousTargetOccurence = 5,
      Refresh = createRefresh env servicePrincipalId servicePrincipal cid\<rparr>"

text \<open>Lines 177 to 210: the confirmation poll, then the Read that ends Create.\<close>

definition Create_confirm ::
  "env \<Rightarrow> ResourceData \<Rightarrow> CredentialId \<Rightarrow> ServicePrincipalId \<Rightarrow> ServicePrincipal \<Rightarrow> outcome" where
  "Create_confirm env d cid servicePrincipalId servicePrincipal =
     (case WaitForStateContext (pollDelay env)
             (createConf env servicePrincipalId servicePrincipal cid) of
        (r, k) \<Rightarrow>
          emits (replicate k (CallGet servicePrincipalId))
            (case pollError r of
               Some err \<Rightarrow>
                 failWith (ErrorDiagF (Some err)
                   ''Waiting for certificate credential for %s'' [SpId servicePrincipalId]) d
             | None \<Rightarrow>
                 (case pollValue r of
                    None \<Rightarrow>
                      failWith (ErrorDiagF
                        (Some (Error ''certificate credential not found in service principal manifest''))
                        ''Waiting for certificate credential for %s'' [SpId servicePrincipalId]) d
                  | Some polledForCredential \<Rightarrow>
                      Read env (Suc k) (SetId d (IdString env cid)))))"

text \<open>Lines 145 to 175: fetch, compute the new credentials, write.\<close>

definition Create_locked ::
  "env \<Rightarrow> ResourceData \<Rightarrow> KeyCredential \<Rightarrow> CredentialId \<Rightarrow> ServicePrincipalId \<Rightarrow> outcome" where
  "Create_locked env d credential cid servicePrincipalId =
     emit (CallGet servicePrincipalId)
       (case GetServicePrincipal env 0 servicePrincipalId of
          GetError notFound err \<Rightarrow>
            if notFound
            then failWith (ErrorDiagPathF None ''service_principal_id''
                   ''%s was not found'' [SpId servicePrincipalId]) d
            else failWith (ErrorDiagPathF (Some err) ''service_principal_id''
                   ''Retrieving %s'' [SpId servicePrincipalId]) d
        | GetModel None \<Rightarrow>
            failWith (ErrorDiagF (Some (Error ''model was nil''))
              ''Retrieving %s'' [SpId servicePrincipalId]) d
        | GetModel (Some servicePrincipal) \<Rightarrow>
            (case withAdded (EqualFold env) (KeyCredentials servicePrincipal) credential of
               Inl AlreadyExists \<Rightarrow>
                 failWith (ImportAsExistsDiag ''azuread_service_principal_certificate''
                   (IdString env cid)) d
             | Inr newCredentials \<Rightarrow>
                 emit (CallUpdate servicePrincipalId newCredentials)
                   (case UpdateServicePrincipal env servicePrincipalId newCredentials of
                      Some err \<Rightarrow>
                        failWith (ErrorDiagF (Some err)
                          ''Adding certificate for %s'' [SpId servicePrincipalId]) d
                    | None \<Rightarrow> Create_confirm env d cid servicePrincipalId servicePrincipal)))"

text \<open>
  \<^verbatim>\<open>servicePrincipalCertificateResourceCreate\<close>. The lock is taken after the credential
  has been generated and checked, and its release is deferred.
\<close>

definition Create :: "env \<Rightarrow> ResourceData \<Rightarrow> outcome" where
  "Create env d =
     (let objectId = GetString d ''service_principal_id'' in
      case KeyCredentialForResource env d of
        Inl err \<Rightarrow>
          failWith (ErrorDiagPathF (Some err)
            (case err of CredentialError attr msg \<Rightarrow> attr | _ \<Rightarrow> [])
            ''Generating certificate credentials for service principal with object ID %q''
            [Str objectId]) d
      | Inr credential \<Rightarrow>
          (case KeyId credential of
             None \<Rightarrow>
               failWith (ErrorDiagF (Some (Error ''keyId for certificate credential is nil''))
                 ''Creating certificate credential'' []) d
           | Some k \<Rightarrow>
               let cid = NewCredentialID objectId ''certificate'' (GetOrZero (KeyId credential));
                   servicePrincipalId = NewServicePrincipalID (ObjectId cid)
               in emit (Lock (servicePrincipalResourceName env) (ObjectId cid))
                    (deferred (Unlock (servicePrincipalResourceName env) (ObjectId cid))
                       (Create_locked env d credential cid servicePrincipalId))))"

section \<open>Delete (Detach)\<close>

text \<open>
  The probe of the deletion poll (lines 297 to 308): as in Create, the answer of the
  fetch is dropped and the credentials of the first fetch are searched.
\<close>

definition deleteProbe ::
  "env \<Rightarrow> ServicePrincipalId \<Rightarrow> ServicePrincipal \<Rightarrow> CredentialId \<Rightarrow> nat \<Rightarrow> error + bool" where
  "deleteProbe env servicePrincipalId servicePrincipal cid i =
     (case GetServicePrincipal env (Suc i) servicePrincipalId of
        GetError notFound err \<Rightarrow> Inl err
      | GetModel fresh \<Rightarrow>
          (case GetKeyCredential (EqualFold env) (KeyCredentials servicePrincipal) (IdKeyId cid) of
             None \<Rightarrow> Inr False
           | Some credential \<Rightarrow> Inr True))"

definition Delete_locked ::
  "env \<Rightarrow> ResourceData \<Rightarrow> CredentialId \<Rightarrow> ServicePrincipalId \<Rightarrow> outcome" where
  "Delete_locked env d cid servicePrincipalId =
     emit (CallGet servicePrincipalId)
       (case GetServicePrincipal env 0 servicePrincipalId of
          GetError notFound err \<Rightarrow>
            if notFound
            then failWith (ErrorDiagPathF (Some (Error ''Service Principal was not found''))
                   ''service_principal_id'' ''Retrieving %s'' [SpId servicePrincipalId]) d
            else failWith (ErrorDiagPathF (Some err) ''service_principal_id''
                   ''Retrieving %s'' [SpId servicePrincipalId]) d
        | GetModel None \<Rightarrow>
            failWith (ErrorDiagF None ''Retrieving %s'' [SpId servicePrincipalId]) d
        | GetModel (Some servicePrincipal) \<Rightarrow>
            (let newCredentials =
                   withRemoved (EqualFold env) (KeyCredentials servicePrincipal) (IdKeyId cid)
             in emit (CallUpdate servicePrincipalId newCredentials)
                  (case UpdateServicePrincipal env servicePrincipalId newCredentials of
                     Some err \<Rightarrow>
                       failWith (ErrorDiagF (Some err)
                         ''Removing certificate credential %q from %s''
                         [Str (IdKeyId cid), SpId servicePrincipalId]) d
                   | None \<Rightarrow>
                       (case WaitForDeletion env
                               (deleteProbe env servicePrincipalId servicePrincipal cid) of
                          (e, k) \<Rightarrow>
                            emits (replicate k (CallGet servicePrincipalId))
                              (case e of
                                 Some err \<Rightarrow>
                                   failWith (ErrorDiagF (Some err)
                                     ''Waiting for deletion of certificate credential %q from %s''
                                     [Str (IdKeyId cid), SpId servicePrincipalId]) d
                               | None \<Rightarrow> \<lparr>diags = None, data = d, trace = []\<rparr>)))))"

definition Delete :: "env \<Rightarrow> ResourceData \<Rightarrow> outcome" where
  "Delete env d =
     (case CertificateID env (rdId d) of
        Inl err \<Rightarrow>
          failWith (ErrorDiagPathF (Some err) ''id''
            ''Parsing certificate credential with ID %q'' [Str (rdId d)]) d
      | Inr cid \<Rightarrow>
          emit (Lock (servicePrincipalResourceName env) (ObjectId cid))
            (deferred (Unlock (servicePrincipalResourceName env) (ObjectId cid))
               (Delete_locked env d cid (NewServicePrincipalID (ObjectId cid)))))"

section \<open>Observations on traces and credential sets\<close>

fun isLockEvent :: "event \<Rightarrow> bool" where
  "isLockEvent (Lock r n) = True"
| "isLockEvent (Unlock r n) = True"
| "isLockEvent _ = False"

fun isCallGet :: "event \<Rightarrow> bool" where
  "isCallGet (CallGet sp) = True"
| "isCallGet _ = False"

definition lockEvents :: "event list \<Rightarrow> event list" where
  "lockEvents evs = filter isLockEvent evs"

text \<open>The credentials behind the pointer: a nil slice has none.\<close>

definition credsOf :: "KeyCredential list option \<Rightarrow> KeyCredential list" where
  "credsOf keyCredentials = (case keyCredentials of None \<Rightarrow> [] | Some creds \<Rightarrow> creds)"

section \<open>Concrete inputs\<close>

text \<open>
  The inputs on which the theorems below are exercised. \<open>EqualFoldASCII\<close> is
  \<^verbatim>\<open>strings.EqualFold\<close> on ASCII strings (the byte loop at the head of the Go function):
  two bytes match when they are equal or when the smaller is an upper-case letter and
  the larger is the same letter in lower case. Key identifiers are UUIDs, hence ASCII.
\<close>

definition foldByte :: "char \<Rightarrow> char \<Rightarrow> bool" where
  "foldByte sr tr =
     (sr = tr \<or>
      (let lo = min (of_char sr :: nat) (of_char tr); hi = max (of_char sr :: nat) (of_char tr)
       in 65 \<le> lo \<and> lo \<le> 90 \<and> hi = lo + 32))"

fun EqualFoldASCII :: "string \<Rightarrow> string \<Rightarrow> bool" where
  "EqualFoldASCII [] [] = True"
| "EqualFoldASCII (sr # s) (tr # t) = (foldByte sr tr \<and> EqualFoldASCII s t)"
| "EqualFoldASCII _ _ = False"

definition cert :: "string \<Rightarrow> KeyCredential" where
  "cert k = \<lparr>KeyId = Some k, Type = Some ''AsymmetricX509Cert'', StartDateTime = None,
             EndDateTime = None, Key = None\<rparr>"

definition principal :: "KeyCredential list \<Rightarrow> GetResponse" where
  "principal creds = GetModel (Some \<lparr>KeyCredentials = Some creds\<rparr>)"

text \<open>
  A directory that answers the \<open>n\<close>-th fetch with \<open>answers n\<close> and accepts every write;
  the resource is the certificate \<open>ab12\<close> of principal \<open>sp1\<close>. The operation starts at
  time 0, the deadline of the caller lies \<open>seconds\<close> seconds ahead, and a round of a poll
  takes exactly the minimum interval, so that \<open>seconds\<close> probes start before the
  deadline.
\<close>

definition testEnv :: "(nat \<Rightarrow> GetResponse) \<Rightarrow> KeyCredential \<Rightarrow> nat \<Rightarrow> env" where
  "testEnv answers credential seconds =
     \<lparr>EqualFold = EqualFoldASCII,
      servicePrincipalResourceName = ''azuread_service_principal'',
      KeyCredentialForResource = (\<lambda>d. Inr credential),
      CertificateID = (\<lambda>s. if s = ''sp1/certificate/ab12''
                            then Inr (NewCredentialID ''sp1'' ''certificate'' ''ab12'')
                            else Inl (Error ''invalid identifier'')),
      IdString = (\<lambda>c. ObjectId c @ ''/'' @ KeyType c @ ''/'' @ IdKeyId c),
      GetServicePrincipal = (\<lambda>n sp. answers n),
      UpdateServicePrincipal = (\<lambda>sp creds. None),
      timeNow = 0,
      ctxDeadline = Some (int seconds * Second),
      pollDelay = (\<lambda>i. 0)\<rparr>"

definition testData :: ResourceData where
  "testData = \<lparr>rdId = ''sp1/certificate/ab12'',
               rdAttrs = Map.empty(''service_principal_id'' \<mapsto> ''sp1'')\<rparr>"


section \<open>Basic facts\<close>

lemma pollLoop_numeral:
  "pollLoop pending target need refresh (numeral n) i hits lastValue =
     (case refresh i of
        (v, label, Some e) \<Rightarrow> (ProbeFailed e, Suc i)
      | (v, label, None) \<Rightarrow>
          if label \<in> set pending
          then pollLoop pending target need refresh (pred_numeral n) (Suc i) 0 v
          else if label \<in> set target then
            (if need \<le> Suc hits then (Settled v, Suc i)
             else pollLoop pending target need refresh (pred_numeral n) (Suc i) (Suc hits) v)
          else (Unexpected label, Suc i))"
  by (simp add: numeral_eq_Suc)

lemma pollBudget_numeral:
  "pollBudget timeout minInterval delay i (numeral n) =
     (if probeStart minInterval delay i < timeout
      then pollBudget timeout minInterval delay (Suc i) (pred_numeral n)
      else i)"
  by (simp add: numeral_eq_Suc)

lemma probeStart_numeral:
  "probeStart minInterval delay (numeral n) =
     probeStart minInterval delay (pred_numeral n) + max 1 minInterval
       + max 0 (delay (pred_numeral n))"
  by (simp add: numeral_eq_Suc)

lemma replicate_numeral: "replicate (numeral n) x = x # replicate (pred_numeral n) x"
  by (simp add: numeral_eq_Suc)

lemmas run_defs = testEnv_def testData_def cert_def principal_def Create_def Create_locked_def
  Create_confirm_def createConf_def createRefresh_def Delete_def Delete_locked_def
  deleteProbe_def WaitForDeletion_def WaitForStateContext_def Read_def GetKeyCredential_def
  withAdded_def withRemoved_def GetOrZero_def NewCredentialID_def GetString_def SetId_def
  tfSet_def failWith_def emit_def emits_def deferred_def pollError_def pollValue_def
  foldByte_def credsOf_def lockEvents_def Let_def Until_def Deadline_def Second_def
  minDuration_def maxDuration_def probesBeforeDeadline_def pollLoop_numeral pollBudget_numeral
  probeStart_numeral replicate_numeral

lemma outcome_simps [simp]:
  "trace (failWith dg d) = []" "diags (failWith dg d) = Some dg" "data (failWith dg d) = d"
  "trace (emit ev r) = ev # trace r" "diags (emit ev r) = diags r" "data (emit ev r) = data r"
  "trace (emits evs r) = evs @ trace r" "diags (emits evs r) = diags r"
  "data (emits evs r) = data r"
  "trace (deferred ev r) = trace r @ [ev]" "diags (deferred ev r) = diags r"
  "data (deferred ev r) = data r"
  by (simp_all add: failWith_def emit_def emits_def deferred_def)

lemma EqualFoldASCII_refl: "EqualFoldASCII s s"
  by (induction s) (simp_all add: foldByte_def)

lemma withAdded_loop_eq:
  "withAdded_loop eqf cs c acc =
     (if \<exists>x\<in>set cs. eqf (GetOrZero (KeyId x)) (GetOrZero (KeyId c)) then Inl AlreadyExists
      else Inr (acc @ cs))"
  by (induction cs arbitrary: acc) auto

lemma withRemoved_loop_eq:
  "withRemoved_loop eqf cs k acc = acc @ filter (\<lambda>x. \<not> eqf (GetOrZero (KeyId x)) k) cs"
  by (induction cs arbitrary: acc) auto

lemma withAdded_eq:
  "withAdded eqf keyCredentials credential =
     (if \<exists>cred\<in>set (credsOf keyCredentials).
            eqf (GetOrZero (KeyId cred)) (GetOrZero (KeyId credential))
      then Inl AlreadyExists
      else Inr (credsOf keyCredentials @ [credential]))"
  by (cases keyCredentials) (simp_all add: withAdded_def credsOf_def withAdded_loop_eq)

lemma withRemoved_eq:
  "withRemoved eqf keyCredentials keyId =
     filter (\<lambda>cred. \<not> eqf (GetOrZero (KeyId cred)) keyId) (credsOf keyCredentials)"
  by (cases keyCredentials) (simp_all add: withRemoved_def credsOf_def withRemoved_loop_eq)

lemma GetKeyCredential_None:
  "GetKeyCredential eqf keyCredentials keyId = None \<longleftrightarrow>
     (\<forall>cred\<in>set (credsOf keyCredentials). \<not> eqf (GetOrZero (KeyId cred)) keyId)"
  by (cases keyCredentials) (auto simp: GetKeyCredential_def credsOf_def find_None_iff)

lemma lockEvents_gets: "list_all isCallGet evs \<Longrightarrow> filter isLockEvent evs = []"
  by (induction evs) (auto elim: isCallGet.elims)

lemma Read_trace: "list_all isCallGet (trace (Read env n d))"
  by (auto simp: Read_def Let_def split: sum.splits GetResponse.splits option.splits)

lemma Create_confirm_trace: "list_all isCallGet (trace (Create_confirm env d cid sp m))"
  using Read_trace
  by (auto simp: Create_confirm_def list_all_iff split: prod.splits option.splits)

text \<open>
  The two shapes of the locked part of Create and of Delete: one fetch and nothing
  else, or the fetch, the write and then fetches only.
\<close>

lemma Create_locked_cases:
  "(trace (Create_locked env d credential cid sp) = [CallGet sp]) \<or>
   (\<exists>m gets. GetServicePrincipal env 0 sp = GetModel (Some m) \<and>
      trace (Create_locked env d credential cid sp) =
        CallGet sp # CallUpdate sp (credsOf (KeyCredentials m) @ [credential]) # gets \<and>
      list_all isCallGet gets)"
  using Create_confirm_trace
  by (auto simp: Create_locked_def withAdded_eq
      split: GetResponse.splits option.splits sum.splits conflict.splits)

lemma Delete_locked_cases:
  "(trace (Delete_locked env d cid sp) = [CallGet sp]) \<or>
   (\<exists>m gets. GetServicePrincipal env 0 sp = GetModel (Some m) \<and>
      trace (Delete_locked env d cid sp) =
        CallGet sp # CallUpdate sp
          (filter (\<lambda>cred. \<not> EqualFold env (GetOrZero (KeyId cred)) (IdKeyId cid))
             (credsOf (KeyCredentials m))) # gets \<and>
      list_all isCallGet gets)"
  by (auto simp: Delete_locked_def withRemoved_eq Let_def list_all_iff
      split: GetResponse.splits option.splits prod.splits)

lemma Create_locked_no_lock: "filter isLockEvent (trace (Create_locked env d credential cid sp)) = []"
  using Create_locked_cases [of env d credential cid sp]
  by (auto dest: lockEvents_gets)

lemma Delete_locked_no_lock: "filter isLockEvent (trace (Delete_locked env d cid sp)) = []"
  using Delete_locked_cases [of env d cid sp]
  by (auto dest: lockEvents_gets)

section \<open>The claims\<close>

text \<open>
  C4. Round trip: when no credential of the set matches the key identifier of the new
  credential, the loop of Create succeeds, and the loop of Delete applied to its result
  with that key identifier gives back the credentials of the original set. The
  comparison is any function that relates the new key identifier to itself, as
  \<^verbatim>\<open>strings.EqualFold\<close> does; a nil slice counts as the empty set.
\<close>

theorem withRemoved_after_withAdded:
  assumes "\<forall>cred\<in>set (credsOf keyCredentials).
             \<not> eqf (GetOrZero (KeyId cred)) (GetOrZero (KeyId credential))"
      and "eqf (GetOrZero (KeyId credential)) (GetOrZero (KeyId credential))"
  shows "\<exists>added. withAdded eqf keyCredentials credential = Inr added \<and>
           withRemoved eqf (Some added) (GetOrZero (KeyId credential)) = credsOf keyCredentials"
proof -
  have kept: "filter (\<lambda>cred. \<not> eqf (GetOrZero (KeyId cred)) (GetOrZero (KeyId credential)))
                (credsOf keyCredentials) = credsOf keyCredentials"
    using assms(1) by (simp add: filter_id_conv)
  have "withAdded eqf keyCredentials credential = Inr (credsOf keyCredentials @ [credential])"
    using assms(1) by (simp add: withAdded_eq)
  moreover have "withRemoved eqf (Some (credsOf keyCredentials @ [credential]))
                   (GetOrZero (KeyId credential)) = credsOf keyCredentials"
    using assms(2) kept by (simp add: withRemoved_eq credsOf_def)
  ultimately show ?thesis by simp
qed

theorem withRemoved_after_withAdded_witness:
  "credsOf (Some [cert ''cd34'']) = [cert ''cd34''] \<and>
   \<not> EqualFoldASCII (GetOrZero (KeyId (cert ''cd34''))) (GetOrZero (KeyId (cert ''ab12''))) \<and>
   EqualFoldASCII (GetOrZero (KeyId (cert ''ab12''))) (GetOrZero (KeyId (cert ''ab12''))) \<and>
   withAdded EqualFoldASCII (Some [cert ''cd34'']) (cert ''ab12'')
     = Inr [cert ''cd34'', cert ''ab12''] \<and>
   withRemoved EqualFoldASCII (Some [cert ''cd34'', cert ''ab12'']) ''ab12'' = [cert ''cd34'']"
  using withRemoved_after_withAdded [of "Some [cert ''cd34'']" EqualFoldASCII "cert ''ab12''"]
  by (simp add: credsOf_def cert_def GetOrZero_def foldByte_def withAdded_def withRemoved_def)

text \<open>
  C5. Every run of Create and of Delete either never takes the lock, or its trace is
  the lock, a body without any lock event, and the release of the same lock as the last
  event: the lock is released exactly once, whatever the directory answers and however
  the operation ends.
\<close>

theorem lock_released_once:
  "(lockEvents (trace (Create env d)) = [] \<or>
    (\<exists>r n body. trace (Create env d) = Lock r n # body @ [Unlock r n] \<and>
       lockEvents body = [])) \<and>
   (lockEvents (trace (Delete env d)) = [] \<or>
    (\<exists>r n body. trace (Delete env d) = Lock r n # body @ [Unlock r n] \<and>
       lockEvents body = []))"
proof
  show "lockEvents (trace (Create env d)) = [] \<or>
    (\<exists>r n body. trace (Create env d) = Lock r n # body @ [Unlock r n] \<and> lockEvents body = [])"
    using Create_locked_no_lock
    by (auto simp: Create_def Let_def lockEvents_def split: sum.splits option.splits)
  show "lockEvents (trace (Delete env d)) = [] \<or>
    (\<exists>r n body. trace (Delete env d) = Lock r n # body @ [Unlock r n] \<and> lockEvents body = [])"
    using Delete_locked_no_lock
    by (auto simp: Delete_def Let_def lockEvents_def split: sum.splits option.splits)
qed

lemma gets_no_update: "list_all isCallGet evs \<Longrightarrow> CallUpdate sp cs \<notin> set evs"
  by (auto simp: list_all_iff)

text \<open>
  C3. When the credentials that Create fetched hold one whose key identifier matches the
  key identifier of the new credential, the loop ends with \<open>AlreadyExists\<close>, Create
  returns the import-as-exists diagnostic for the resource, the resource data is
  unchanged, and the trace is the lock, the fetch and the release: no write is issued,
  so the existing credential is not overwritten.
\<close>

theorem Attach_existing_keyId_already_exists:
  assumes "KeyCredentialForResource env d = Inr credential"
      and "KeyId credential = Some k"
      and "GetServicePrincipal env 0 (NewServicePrincipalID (GetString d ''service_principal_id''))
             = GetModel (Some servicePrincipal)"
      and "\<exists>cred\<in>set (credsOf (KeyCredentials servicePrincipal)).
             EqualFold env (GetOrZero (KeyId cred)) (GetOrZero (KeyId credential))"
  shows "withAdded (EqualFold env) (KeyCredentials servicePrincipal) credential = Inl AlreadyExists \<and>
         diags (Create env d) =
           Some (ImportAsExistsDiag ''azuread_service_principal_certificate''
                  (IdString env (NewCredentialID (GetString d ''service_principal_id'')
                     ''certificate'' k))) \<and>
         data (Create env d) = d \<and>
         trace (Create env d) =
           [Lock (servicePrincipalResourceName env) (GetString d ''service_principal_id''),
            CallGet (NewServicePrincipalID (GetString d ''service_principal_id'')),
            Unlock (servicePrincipalResourceName env) (GetString d ''service_principal_id'')]"
proof -
  have added: "withAdded (EqualFold env) (KeyCredentials servicePrincipal) credential
                 = Inl AlreadyExists"
    using assms(4) by (simp add: withAdded_eq)
  show ?thesis
    using assms(1,2,3) added
    by (simp add: Create_def Create_locked_def Let_def NewCredentialID_def GetOrZero_def)
qed

theorem Attach_existing_keyId_already_exists_witness:
  "KeyCredentialForResource (testEnv (\<lambda>n. principal [cert ''cd34'', cert ''AB12'']) (cert ''ab12'') 5) testData
     = Inr (cert ''ab12'') \<and>
   KeyId (cert ''ab12'') = Some ''ab12'' \<and>
   EqualFoldASCII ''AB12'' ''ab12'' \<and>
   withAdded EqualFoldASCII (Some [cert ''cd34'', cert ''AB12'']) (cert ''ab12'') = Inl AlreadyExists \<and>
   diags (Create (testEnv (\<lambda>n. principal [cert ''cd34'', cert ''AB12'']) (cert ''ab12'') 5) testData)
     = Some (ImportAsExistsDiag ''azuread_service_principal_certificate'' ''sp1/certificate/ab12'') \<and>
   trace (Create (testEnv (\<lambda>n. principal [cert ''cd34'', cert ''AB12'']) (cert ''ab12'') 5) testData)
     = [Lock ''azuread_service_principal'' ''sp1'', CallGet (NewServicePrincipalID ''sp1''),
        Unlock ''azuread_service_principal'' ''sp1'']"
  using Attach_existing_keyId_already_exists [of "testEnv (\<lambda>n. principal [cert ''cd34'', cert ''AB12'']) (cert ''ab12'') 5" testData
      "cert ''ab12''" "''ab12''" "\<lparr>KeyCredentials = Some [cert ''cd34'', cert ''AB12'']\<rparr>"]
  by (simp add: testEnv_def testData_def cert_def principal_def GetString_def credsOf_def
      GetOrZero_def foldByte_def NewCredentialID_def)

text \<open>
  C10. Frame of the write. Any credentials that Create writes are the credentials of
  the fetched principal, in their order, followed by the new credential; any
  credentials that Delete writes are the credentials of the fetched principal without
  those that match the key identifier, in their order.
\<close>

theorem written_credentials_frame:
  "(KeyCredentialForResource env d = Inr credential \<longrightarrow>
      CallUpdate sp newCredentials \<in> set (trace (Create env d)) \<longrightarrow>
      (\<exists>servicePrincipal. GetServicePrincipal env 0 sp = GetModel (Some servicePrincipal) \<and>
         newCredentials = credsOf (KeyCredentials servicePrincipal) @ [credential])) \<and>
   (CertificateID env (rdId d) = Inr cid \<longrightarrow>
      CallUpdate sp newCredentials \<in> set (trace (Delete env d)) \<longrightarrow>
      (\<exists>servicePrincipal. GetServicePrincipal env 0 sp = GetModel (Some servicePrincipal) \<and>
         newCredentials =
           filter (\<lambda>cred. \<not> EqualFold env (GetOrZero (KeyId cred)) (IdKeyId cid))
             (credsOf (KeyCredentials servicePrincipal))))"
proof (intro conjI impI)
  assume k: "KeyCredentialForResource env d = Inr credential"
    and u: "CallUpdate sp newCredentials \<in> set (trace (Create env d))"
  show "\<exists>servicePrincipal. GetServicePrincipal env 0 sp = GetModel (Some servicePrincipal) \<and>
         newCredentials = credsOf (KeyCredentials servicePrincipal) @ [credential]"
  proof (cases "KeyId credential")
    case None
    with k u show ?thesis by (simp add: Create_def)
  next
    case (Some key)
    define cid where "cid = NewCredentialID (GetString d ''service_principal_id'') ''certificate''
      (GetOrZero (KeyId credential))"
    define sp' where "sp' = NewServicePrincipalID (ObjectId cid)"
    from k Some u have "CallUpdate sp newCredentials \<in> set (trace (Create_locked env d credential cid sp'))"
      by (simp add: Create_def Let_def cid_def sp'_def)
    with Create_locked_cases [of env d credential cid sp'] show ?thesis
      by (auto dest: gets_no_update)
  qed
next
  assume p: "CertificateID env (rdId d) = Inr cid"
    and u: "CallUpdate sp newCredentials \<in> set (trace (Delete env d))"
  define sp' where "sp' = NewServicePrincipalID (ObjectId cid)"
  from p u have "CallUpdate sp newCredentials \<in> set (trace (Delete_locked env d cid sp'))"
    by (simp add: Delete_def sp'_def)
  with Delete_locked_cases [of env d cid sp']
  show "\<exists>servicePrincipal. GetServicePrincipal env 0 sp = GetModel (Some servicePrincipal) \<and>
         newCredentials =
           filter (\<lambda>cred. \<not> EqualFold env (GetOrZero (KeyId cred)) (IdKeyId cid))
             (credsOf (KeyCredentials servicePrincipal))"
    by (auto dest: gets_no_update)
qed

theorem written_credentials_frame_witness:
  "KeyCredentialForResource (testEnv (\<lambda>n. principal [cert ''cd34'']) (cert ''ab12'') (Suc 0)) testData
     = Inr (cert ''ab12'') \<and>
   CallUpdate (NewServicePrincipalID ''sp1'') [cert ''cd34'', cert ''ab12'']
     \<in> set (trace (Create (testEnv (\<lambda>n. principal [cert ''cd34'']) (cert ''ab12'') (Suc 0)) testData)) \<and>
   (\<exists>servicePrincipal.
      GetServicePrincipal (testEnv (\<lambda>n. principal [cert ''cd34'']) (cert ''ab12'') (Suc 0)) 0
        (NewServicePrincipalID ''sp1'') = GetModel (Some servicePrincipal) \<and>
      [cert ''cd34'', cert ''ab12''] = credsOf (KeyCredentials servicePrincipal) @ [cert ''ab12'']) \<and>
   CertificateID (testEnv (\<lambda>n. principal [cert ''cd34'', cert ''AB12'', cert ''ef56'']) (cert ''ab12'') (Suc 0)) (rdId testData)
     = Inr (NewCredentialID ''sp1'' ''certificate'' ''ab12'') \<and>
   CallUpdate (NewServicePrincipalID ''sp1'') [cert ''cd34'', cert ''ef56'']
     \<in> set (trace (Delete (testEnv (\<lambda>n. principal [cert ''cd34'', cert ''AB12'', cert ''ef56'']) (cert ''ab12'') (Suc 0)) testData))"
proof -
  let ?A = "testEnv (\<lambda>n. principal [cert ''cd34'']) (cert ''ab12'') (Suc 0)"
  let ?D = "testEnv (\<lambda>n. principal [cert ''cd34'', cert ''AB12'', cert ''ef56'']) (cert ''ab12'') (Suc 0)"
  have a1: "KeyCredentialForResource ?A testData = Inr (cert ''ab12'')"
    by (simp add: testEnv_def)
  have a2: "CallUpdate (NewServicePrincipalID ''sp1'') [cert ''cd34'', cert ''ab12'']
              \<in> set (trace (Create ?A testData))"
    by (simp add: run_defs)
  have d1: "CertificateID ?D (rdId testData) = Inr (NewCredentialID ''sp1'' ''certificate'' ''ab12'')"
    by (simp add: testEnv_def testData_def)
  have d2: "CallUpdate (NewServicePrincipalID ''sp1'') [cert ''cd34'', cert ''ef56'']
              \<in> set (trace (Delete ?D testData))"
    by (simp add: run_defs)
  from written_credentials_frame [of ?A testData "cert ''ab12''" "NewServicePrincipalID ''sp1''"
      "[cert ''cd34'', cert ''ab12'']" "NewCredentialID ''sp1'' ''certificate'' ''ab12''"] a1 a2
  have "\<exists>servicePrincipal.
      GetServicePrincipal ?A 0 (NewServicePrincipalID ''sp1'') = GetModel (Some servicePrincipal) \<and>
      [cert ''cd34'', cert ''ab12''] = credsOf (KeyCredentials servicePrincipal) @ [cert ''ab12'']"
    by blast
  with a1 a2 d1 d2 show ?thesis by blast
qed

text \<open>
  C1 as stated fails: on a directory that answers the fetch of Delete with not-found,
  Delete returns an error diagnostic.
\<close>

theorem Detach_principal_not_found_counterexample:
  "CertificateID (testEnv (\<lambda>n. GetError True (Error ''404 Not Found'')) (cert ''ab12'') 5) (rdId testData)
     = Inr (NewCredentialID ''sp1'' ''certificate'' ''ab12'') \<and>
   GetServicePrincipal (testEnv (\<lambda>n. GetError True (Error ''404 Not Found'')) (cert ''ab12'') 5) 0
       (NewServicePrincipalID ''sp1'') = GetError True (Error ''404 Not Found'') \<and>
   diags (Delete (testEnv (\<lambda>n. GetError True (Error ''404 Not Found'')) (cert ''ab12'') 5) testData)
     = Some (ErrorDiagPathF (Some (Error ''Service Principal was not found''))
              ''service_principal_id'' ''Retrieving %s'' [SpId (NewServicePrincipalID ''sp1'')]) \<and>
   diags (Delete (testEnv (\<lambda>n. GetError True (Error ''404 Not Found'')) (cert ''ab12'') 5) testData)
     \<noteq> None"
  by (simp add: run_defs)

text \<open>
  C1, amended. When the directory reports the principal as not found to the fetch of
  Delete, Delete returns the error diagnostic "Service Principal was not found" on the
  path \<open>service_principal_id\<close>, issues no write, leaves the resource data as it was and
  releases the lock.
\<close>

theorem Detach_principal_not_found_is_error:
  assumes "CertificateID env (rdId d) = Inr cid"
      and "GetServicePrincipal env 0 (NewServicePrincipalID (ObjectId cid)) = GetError True err"
  shows "Delete env d =
           \<lparr>diags = Some (ErrorDiagPathF (Some (Error ''Service Principal was not found''))
                     ''service_principal_id'' ''Retrieving %s''
                     [SpId (NewServicePrincipalID (ObjectId cid))]),
            data = d,
            trace = [Lock (servicePrincipalResourceName env) (ObjectId cid),
                     CallGet (NewServicePrincipalID (ObjectId cid)),
                     Unlock (servicePrincipalResourceName env) (ObjectId cid)]\<rparr>"
  using assms
  by (simp add: Delete_def Delete_locked_def failWith_def emit_def deferred_def)

theorem Detach_principal_not_found_is_error_witness:
  "CertificateID (testEnv (\<lambda>n. GetError True (Error ''404 Not Found'')) (cert ''ab12'') 5) (rdId testData)
     = Inr (NewCredentialID ''sp1'' ''certificate'' ''ab12'') \<and>
   GetServicePrincipal (testEnv (\<lambda>n. GetError True (Error ''404 Not Found'')) (cert ''ab12'') 5) 0
       (NewServicePrincipalID (ObjectId (NewCredentialID ''sp1'' ''certificate'' ''ab12'')))
     = GetError True (Error ''404 Not Found'') \<and>
   Delete (testEnv (\<lambda>n. GetError True (Error ''404 Not Found'')) (cert ''ab12'') 5) testData =
     \<lparr>diags = Some (ErrorDiagPathF (Some (Error ''Service Principal was not found''))
               ''service_principal_id'' ''Retrieving %s'' [SpId (NewServicePrincipalID ''sp1'')]),
      data = testData,
      trace = [Lock ''azuread_service_principal'' ''sp1'', CallGet (NewServicePrincipalID ''sp1''),
               Unlock ''azuread_service_principal'' ''sp1'']\<rparr>"
  using Detach_principal_not_found_is_error [of "testEnv (\<lambda>n. GetError True (Error ''404 Not Found'')) (cert ''ab12'') 5" testData
      "NewCredentialID ''sp1'' ''certificate'' ''ab12''" "Error ''404 Not Found''"]
  by (simp add: testEnv_def testData_def NewCredentialID_def)

text \<open>
  C8. Read never takes or releases a lock. When the identifier parses and the directory
  reports the principal as not found, or returns a principal none of whose credentials
  matches the key identifier, Read returns no diagnostic and clears the stored resource
  identifier, leaving the attributes as they were.
\<close>

theorem Read_absence_is_success:
  "lockEvents (trace (Read env n d)) = [] \<and>
   (CertificateID env (rdId d) = Inr cid \<longrightarrow>
      (GetServicePrincipal env n (NewServicePrincipalID (ObjectId cid)) = GetError True err \<or>
       GetServicePrincipal env n (NewServicePrincipalID (ObjectId cid)) = GetModel (Some servicePrincipal) \<and>
         list_all (\<lambda>cred. \<not> EqualFold env (GetOrZero (KeyId cred)) (IdKeyId cid))
           (credsOf (KeyCredentials servicePrincipal))) \<longrightarrow>
      diags (Read env n d) = None \<and> rdId (data (Read env n d)) = [] \<and>
      rdAttrs (data (Read env n d)) = rdAttrs d)"
proof (rule conjI)
  show "lockEvents (trace (Read env n d)) = []"
    using Read_trace [of env n d] by (simp add: lockEvents_def lockEvents_gets)
next
  show "CertificateID env (rdId d) = Inr cid \<longrightarrow>
      (GetServicePrincipal env n (NewServicePrincipalID (ObjectId cid)) = GetError True err \<or>
       GetServicePrincipal env n (NewServicePrincipalID (ObjectId cid)) = GetModel (Some servicePrincipal) \<and>
         list_all (\<lambda>cred. \<not> EqualFold env (GetOrZero (KeyId cred)) (IdKeyId cid))
           (credsOf (KeyCredentials servicePrincipal))) \<longrightarrow>
      diags (Read env n d) = None \<and> rdId (data (Read env n d)) = [] \<and>
      rdAttrs (data (Read env n d)) = rdAttrs d"
  proof (intro impI)
    assume p: "CertificateID env (rdId d) = Inr cid"
      and a: "GetServicePrincipal env n (NewServicePrincipalID (ObjectId cid)) = GetError True err \<or>
         GetServicePrincipal env n (NewServicePrincipalID (ObjectId cid)) = GetModel (Some servicePrincipal) \<and>
           list_all (\<lambda>cred. \<not> EqualFold env (GetOrZero (KeyId cred)) (IdKeyId cid))
             (credsOf (KeyCredentials servicePrincipal))"
    from a show "diags (Read env n d) = None \<and> rdId (data (Read env n d)) = [] \<and>
        rdAttrs (data (Read env n d)) = rdAttrs d"
    proof
      assume "GetServicePrincipal env n (NewServicePrincipalID (ObjectId cid)) = GetError True err"
      with p show ?thesis by (simp add: Read_def emit_def SetId_def)
    next
      assume b: "GetServicePrincipal env n (NewServicePrincipalID (ObjectId cid)) = GetModel (Some servicePrincipal) \<and>
           list_all (\<lambda>cred. \<not> EqualFold env (GetOrZero (KeyId cred)) (IdKeyId cid))
             (credsOf (KeyCredentials servicePrincipal))"
      then have "GetKeyCredential (EqualFold env) (KeyCredentials servicePrincipal) (IdKeyId cid) = None"
        by (simp add: GetKeyCredential_None list_all_iff)
      with p b show ?thesis by (simp add: Read_def emit_def SetId_def)
    qed
  qed
qed

theorem Read_absence_is_success_witness:
  "CertificateID (testEnv (\<lambda>n. GetError True (Error ''404 Not Found'')) (cert ''ab12'') 0) (rdId testData)
     = Inr (NewCredentialID ''sp1'' ''certificate'' ''ab12'') \<and>
   GetServicePrincipal (testEnv (\<lambda>n. GetError True (Error ''404 Not Found'')) (cert ''ab12'') 0) 0
     (NewServicePrincipalID ''sp1'') = GetError True (Error ''404 Not Found'') \<and>
   diags (Read (testEnv (\<lambda>n. GetError True (Error ''404 Not Found'')) (cert ''ab12'') 0) 0 testData)
     = None \<and>
   rdId (data (Read (testEnv (\<lambda>n. GetError True (Error ''404 Not Found'')) (cert ''ab12'') 0) 0 testData))
     = [] \<and>
   GetServicePrincipal (testEnv (\<lambda>n. principal [cert ''cd34'']) (cert ''ab12'') 0) 0
     (NewServicePrincipalID ''sp1'') = principal [cert ''cd34''] \<and>
   \<not> EqualFoldASCII ''cd34'' ''ab12'' \<and>
   diags (Read (testEnv (\<lambda>n. principal [cert ''cd34'']) (cert ''ab12'') 0) 0 testData) = None \<and>
   rdId (data (Read (testEnv (\<lambda>n. principal [cert ''cd34'']) (cert ''ab12'') 0) 0 testData)) = [] \<and>
   lockEvents (trace (Read (testEnv (\<lambda>n. principal [cert ''cd34'']) (cert ''ab12'') 0) 0 testData))
     = []"
proof -
  let ?N = "testEnv (\<lambda>n. GetError True (Error ''404 Not Found'')) (cert ''ab12'') 0"
  let ?M = "testEnv (\<lambda>n. principal [cert ''cd34'']) (cert ''ab12'') 0"
  let ?cid = "NewCredentialID ''sp1'' ''certificate'' ''ab12''"
  have n1: "CertificateID ?N (rdId testData) = Inr ?cid"
    by (simp add: testEnv_def testData_def)
  have n2: "GetServicePrincipal ?N 0 (NewServicePrincipalID (ObjectId ?cid))
              = GetError True (Error ''404 Not Found'')"
    by (simp add: testEnv_def)
  have m1: "CertificateID ?M (rdId testData) = Inr ?cid"
    by (simp add: testEnv_def testData_def)
  have m2: "GetServicePrincipal ?M 0 (NewServicePrincipalID (ObjectId ?cid))
              = GetModel (Some \<lparr>KeyCredentials = Some [cert ''cd34'']\<rparr>)"
    by (simp add: testEnv_def principal_def)
  have m3: "list_all (\<lambda>cred. \<not> EqualFold ?M (GetOrZero (KeyId cred)) (IdKeyId ?cid))
              (credsOf (KeyCredentials \<lparr>KeyCredentials = Some [cert ''cd34'']\<rparr>))"
    by (simp add: testEnv_def credsOf_def cert_def GetOrZero_def NewCredentialID_def foldByte_def)
  have f: "\<not> EqualFoldASCII ''cd34'' ''ab12''"
    by (simp add: foldByte_def)
  have o: "ObjectId ?cid = ''sp1''"
    by (simp add: NewCredentialID_def)
  from Read_absence_is_success [of ?N 0 testData ?cid "Error ''404 Not Found''"
      "\<lparr>KeyCredentials = Some [cert ''cd34'']\<rparr>"] n1 n2
  have rn: "diags (Read ?N 0 testData) = None \<and> rdId (data (Read ?N 0 testData)) = []"
    by blast
  from Read_absence_is_success [of ?M 0 testData ?cid "Error ''404 Not Found''"
      "\<lparr>KeyCredentials = Some [cert ''cd34'']\<rparr>"] m1 m2 m3
  have rm: "diags (Read ?M 0 testData) = None \<and> rdId (data (Read ?M 0 testData)) = [] \<and>
            lockEvents (trace (Read ?M 0 testData)) = []"
    by blast
  from n1 n2 m2 f rn rm show ?thesis
    by (simp add: o principal_def)
qed

section \<open>The poller and the confirmation polls\<close>


text \<open>
  A poll whose probe never answers a target label never succeeds. The probe of Create
  scans the credentials of the first fetch, which hold no match for the new key
  identifier once the loop of Create has passed them; so the confirmation poll of
  Create cannot succeed, and Create returns a diagnostic on every path. Likewise a
  Delete that found the credential in its first fetch cannot confirm its removal.
\<close>

lemma pollLoop_no_target:
  assumes "\<forall>j. fst (snd (refresh j)) \<notin> set target"
  shows "fst (pollLoop pending target need refresh fuel i hits lastValue) \<noteq> Settled v"
proof (induction fuel arbitrary: i hits lastValue)
  case 0
  show ?case by simp
next
  case (Suc fuel)
  obtain w label e where r: "refresh i = (w, label, e)"
    by (cases "refresh i") auto
  from assms have "fst (snd (refresh i)) \<notin> set target" by (rule spec)
  with r have nt: "label \<notin> set target" by simp
  show ?case
  proof (cases e)
    case None
    with r nt Suc.IH show ?thesis by simp
  next
    case (Some err)
    with r show ?thesis by simp
  qed
qed

lemma createRefresh_stale:
  assumes "withAdded (EqualFold env) (KeyCredentials m) credential = Inr newCredentials"
      and "IdKeyId cid = GetOrZero (KeyId credential)"
  shows "fst (snd (createRefresh env sp m cid i)) \<noteq> ''Done''"
proof -
  from assms(1) have "\<forall>cred\<in>set (credsOf (KeyCredentials m)).
      \<not> EqualFold env (GetOrZero (KeyId cred)) (GetOrZero (KeyId credential))"
    by (simp add: withAdded_eq split: if_splits)
  with assms(2) have "GetKeyCredential (EqualFold env) (KeyCredentials m) (IdKeyId cid) = None"
    by (simp add: GetKeyCredential_None)
  then show ?thesis
    by (auto simp: createRefresh_def GetKeyCredential_def
        split: GetResponse.splits option.splits)
qed

lemma Create_confirm_fails:
  assumes "withAdded (EqualFold env) (KeyCredentials m) credential = Inr newCredentials"
      and "IdKeyId cid = GetOrZero (KeyId credential)"
  shows "diags (Create_confirm env d cid sp m) \<noteq> None"
proof -
  obtain r k where w: "WaitForStateContext (pollDelay env) (createConf env sp m cid) = (r, k)"
    by (cases "WaitForStateContext (pollDelay env) (createConf env sp m cid)") auto
  have "\<forall>j. fst (snd (createRefresh env sp m cid j)) \<notin> set [''Done'']"
    using createRefresh_stale [OF assms] by simp
  then have "fst (pollLoop [''Waiting''] [''Done''] 5 (createRefresh env sp m cid)
                    (probesBeforeDeadline (Until (timeNow env) (Deadline env)) (1 * Second)
                       (pollDelay env)) 0 0 None) \<noteq> Settled v" for v
    by (rule pollLoop_no_target)
  with w have "r \<noteq> Settled v" for v
    by (auto simp: WaitForStateContext_def createConf_def)
  then have "pollError r \<noteq> None"
    by (cases r) (auto simp: pollError_def)
  with w show ?thesis
    by (auto simp: Create_confirm_def)
qed

lemma Create_locked_fails:
  assumes "IdKeyId cid = GetOrZero (KeyId credential)"
  shows "diags (Create_locked env d credential cid sp) \<noteq> None"
proof (cases "GetServicePrincipal env 0 sp")
  case (GetError notFound err)
  then show ?thesis by (simp add: Create_locked_def)
next
  case (GetModel model)
  show ?thesis
  proof (cases model)
    case None
    with GetModel show ?thesis by (simp add: Create_locked_def)
  next
    case (Some m)
    show ?thesis
    proof (cases "withAdded (EqualFold env) (KeyCredentials m) credential")
      case (Inl c)
      with GetModel Some show ?thesis
        by (cases c) (simp add: Create_locked_def)
    next
      case (Inr newCredentials)
      from Create_confirm_fails [OF Inr assms]
      have "diags (Create_confirm env d cid sp m) \<noteq> None" .
      with GetModel Some Inr show ?thesis
        by (cases "UpdateServicePrincipal env sp newCredentials") (simp_all add: Create_locked_def)
    qed
  qed
qed

lemma Create_never_succeeds: "diags (Create env d) \<noteq> None"
proof (cases "KeyCredentialForResource env d")
  case (Inl err)
  then show ?thesis by (simp add: Create_def)
next
  case (Inr credential)
  show ?thesis
  proof (cases "KeyId credential")
    case None
    with Inr show ?thesis by (simp add: Create_def)
  next
    case (Some k)
    with Inr show ?thesis
      by (simp add: Create_def Let_def Create_locked_fails NewCredentialID_def)
  qed
qed

lemma Delete_removing_never_succeeds:
  assumes "CertificateID env (rdId d) = Inr cid"
      and "GetServicePrincipal env 0 (NewServicePrincipalID (ObjectId cid)) = GetModel (Some m)"
      and "GetKeyCredential (EqualFold env) (KeyCredentials m) (IdKeyId cid) = Some credential"
  shows "diags (Delete env d) \<noteq> None"
proof -
  let ?sp = "NewServicePrincipalID (ObjectId cid)"
  let ?fuel = "probesBeforeDeadline (Until (timeNow env) (Deadline env)) (1 * Second) (pollDelay env)"
  let ?refresh = "\<lambda>i. case deleteProbe env ?sp m cid i of
                      Inl e \<Rightarrow> (None, ''error'', Some e)
                    | Inr exists \<Rightarrow> (Some exists, if exists then ''found'' else ''not-found'', None)"
  have "\<forall>j. fst (snd (?refresh j)) \<notin> set [''not-found'']"
    using assms(3) by (auto simp: deleteProbe_def split: GetResponse.splits)
  then have ns: "fst (pollLoop [''found''] [''not-found''] 5 ?refresh ?fuel 0 0 None)
                   \<noteq> Settled v" for v
    by (rule pollLoop_no_target)
  obtain r k where w: "pollLoop [''found''] [''not-found''] 5 ?refresh ?fuel 0 0 None = (r, k)"
    by (cases "pollLoop [''found''] [''not-found''] 5 ?refresh ?fuel 0 0 None") auto
  with ns have "r \<noteq> Settled v" for v by auto
  then have "pollError r \<noteq> None"
    by (cases r) (auto simp: pollError_def)
  with w have "fst (WaitForDeletion env (deleteProbe env ?sp m cid)) \<noteq> None"
    by (simp add: WaitForDeletion_def WaitForStateContext_def)
  with assms(1,2) show ?thesis
    by (cases "UpdateServicePrincipal env ?sp (withRemoved (EqualFold env) (KeyCredentials m) (IdKeyId cid))")
       (auto simp: Delete_def Delete_locked_def Let_def split: prod.splits)
qed

lemma Read_diags_not_poll:
  "diags (Read env n d) \<noteq> Some (ErrorDiagF (Some e) msg args)"
  by (auto simp: Read_def Let_def split: sum.splits GetResponse.splits option.splits)

lemma Create_confirm_timeout:
  assumes "diags (Create_confirm env d cid sp m) =
             Some (ErrorDiagF (Some TimeoutError) ''Waiting for certificate credential for %s'' args)"
  shows "\<exists>k. trace (Create_confirm env d cid sp m) = replicate k (CallGet sp)"
  using assms Read_diags_not_poll
  by (auto simp: Create_confirm_def split: prod.splits option.splits)

lemma Create_locked_timeout:
  assumes "diags (Create_locked env d credential cid sp) =
             Some (ErrorDiagF (Some TimeoutError) ''Waiting for certificate credential for %s'' args)"
  shows "\<exists>newCredentials k.
           trace (Create_locked env d credential cid sp) =
             CallGet sp # CallUpdate sp newCredentials # replicate k (CallGet sp) \<and>
           UpdateServicePrincipal env sp newCredentials = None"
  using assms Create_confirm_timeout
  by (auto simp: Create_locked_def
      split: GetResponse.splits option.splits sum.splits conflict.splits if_splits)

lemma Delete_locked_timeout:
  assumes "diags (Delete_locked env d cid sp) =
             Some (ErrorDiagF (Some TimeoutError)
               ''Waiting for deletion of certificate credential %q from %s'' args)"
  shows "\<exists>newCredentials k.
           trace (Delete_locked env d cid sp) =
             CallGet sp # CallUpdate sp newCredentials # replicate k (CallGet sp) \<and>
           UpdateServicePrincipal env sp newCredentials = None"
  using assms
  by (auto simp: Delete_locked_def Let_def
      split: GetResponse.splits option.splits prod.splits if_splits)

text \<open>
  C7. When Create or Delete returns the timeout error of its confirmation poll, the
  trace is the lock, the first fetch, the write, then only the fetches of the poll, and
  the release; the directory had accepted the write. A timeout is reported only after
  the write was issued.
\<close>

theorem timeout_follows_write:
  "(diags (Create env d) =
      Some (ErrorDiagF (Some TimeoutError) ''Waiting for certificate credential for %s'' args) \<longrightarrow>
    (\<exists>r n sp newCredentials k.
       trace (Create env d) =
         [Lock r n, CallGet sp, CallUpdate sp newCredentials] @ replicate k (CallGet sp) @ [Unlock r n] \<and>
       UpdateServicePrincipal env sp newCredentials = None)) \<and>
   (diags (Delete env d) =
      Some (ErrorDiagF (Some TimeoutError)
        ''Waiting for deletion of certificate credential %q from %s'' args) \<longrightarrow>
    (\<exists>r n sp newCredentials k.
       trace (Delete env d) =
         [Lock r n, CallGet sp, CallUpdate sp newCredentials] @ replicate k (CallGet sp) @ [Unlock r n] \<and>
       UpdateServicePrincipal env sp newCredentials = None))"
proof (rule conjI)
  show "diags (Create env d) =
      Some (ErrorDiagF (Some TimeoutError) ''Waiting for certificate credential for %s'' args) \<longrightarrow>
    (\<exists>r n sp newCredentials k.
       trace (Create env d) =
         [Lock r n, CallGet sp, CallUpdate sp newCredentials] @ replicate k (CallGet sp) @ [Unlock r n] \<and>
       UpdateServicePrincipal env sp newCredentials = None)"
    by (auto simp: Create_def Let_def split: sum.splits option.splits
        dest!: Create_locked_timeout)
next
  show "diags (Delete env d) =
      Some (ErrorDiagF (Some TimeoutError)
        ''Waiting for deletion of certificate credential %q from %s'' args) \<longrightarrow>
    (\<exists>r n sp newCredentials k.
       trace (Delete env d) =
         [Lock r n, CallGet sp, CallUpdate sp newCredentials] @ replicate k (CallGet sp) @ [Unlock r n] \<and>
       UpdateServicePrincipal env sp newCredentials = None)"
    by (auto simp: Delete_def Let_def split: sum.splits option.splits
        dest!: Delete_locked_timeout)
qed

theorem timeout_follows_write_witness:
  "diags (Create (testEnv (\<lambda>n. principal []) (cert ''ab12'') (Suc (Suc 0))) testData) =
     Some (ErrorDiagF (Some TimeoutError) ''Waiting for certificate credential for %s''
            [SpId (NewServicePrincipalID ''sp1'')]) \<and>
   (\<exists>r n sp newCredentials k.
      trace (Create (testEnv (\<lambda>n. principal []) (cert ''ab12'') (Suc (Suc 0))) testData) =
        [Lock r n, CallGet sp, CallUpdate sp newCredentials] @ replicate k (CallGet sp) @
        [Unlock r n] \<and>
      UpdateServicePrincipal (testEnv (\<lambda>n. principal []) (cert ''ab12'') (Suc (Suc 0)))
        sp newCredentials = None) \<and>
   trace (Create (testEnv (\<lambda>n. principal []) (cert ''ab12'') (Suc (Suc 0))) testData) =
     [Lock ''azuread_service_principal'' ''sp1'', CallGet (NewServicePrincipalID ''sp1''),
      CallUpdate (NewServicePrincipalID ''sp1'') [cert ''ab12'']] @
     replicate 2 (CallGet (NewServicePrincipalID ''sp1'')) @
     [Unlock ''azuread_service_principal'' ''sp1''] \<and>
   diags (Delete (testEnv (\<lambda>n. principal [cert ''ab12'']) (cert ''ab12'') (Suc (Suc 0))) testData) =
     Some (ErrorDiagF (Some TimeoutError)
            ''Waiting for deletion of certificate credential %q from %s''
            [Str ''ab12'', SpId (NewServicePrincipalID ''sp1'')]) \<and>
   (\<exists>r n sp newCredentials k.
      trace (Delete (testEnv (\<lambda>n. principal [cert ''ab12'']) (cert ''ab12'') (Suc (Suc 0))) testData) =
        [Lock r n, CallGet sp, CallUpdate sp newCredentials] @ replicate k (CallGet sp) @
        [Unlock r n] \<and>
      UpdateServicePrincipal (testEnv (\<lambda>n. principal [cert ''ab12'']) (cert ''ab12'') (Suc (Suc 0)))
        sp newCredentials = None) \<and>
   trace (Delete (testEnv (\<lambda>n. principal [cert ''ab12'']) (cert ''ab12'') (Suc (Suc 0))) testData) =
     [Lock ''azuread_service_principal'' ''sp1'', CallGet (NewServicePrincipalID ''sp1''),
      CallUpdate (NewServicePrincipalID ''sp1'') []] @
     replicate 2 (CallGet (NewServicePrincipalID ''sp1'')) @
     [Unlock ''azuread_service_principal'' ''sp1'']"
proof -
  let ?A = "testEnv (\<lambda>n. principal []) (cert ''ab12'') (Suc (Suc 0))"
  let ?D = "testEnv (\<lambda>n. principal [cert ''ab12'']) (cert ''ab12'') (Suc (Suc 0))"
  have a: "diags (Create ?A testData) =
     Some (ErrorDiagF (Some TimeoutError) ''Waiting for certificate credential for %s''
            [SpId (NewServicePrincipalID ''sp1'')])"
    by (simp add: run_defs)
  have b: "diags (Delete ?D testData) =
     Some (ErrorDiagF (Some TimeoutError)
            ''Waiting for deletion of certificate credential %q from %s''
            [Str ''ab12'', SpId (NewServicePrincipalID ''sp1'')])"
    by (simp add: run_defs)
  have ta: "trace (Create ?A testData) =
     [Lock ''azuread_service_principal'' ''sp1'', CallGet (NewServicePrincipalID ''sp1''),
      CallUpdate (NewServicePrincipalID ''sp1'') [cert ''ab12'']] @
     replicate 2 (CallGet (NewServicePrincipalID ''sp1'')) @
     [Unlock ''azuread_service_principal'' ''sp1'']"
    by (simp add: run_defs)
  have tb: "trace (Delete ?D testData) =
     [Lock ''azuread_service_principal'' ''sp1'', CallGet (NewServicePrincipalID ''sp1''),
      CallUpdate (NewServicePrincipalID ''sp1'') []] @
     replicate 2 (CallGet (NewServicePrincipalID ''sp1'')) @
     [Unlock ''azuread_service_principal'' ''sp1'']"
    by (simp add: run_defs)
  from timeout_follows_write [of ?A testData "[SpId (NewServicePrincipalID ''sp1'')]"] a
  have wa: "\<exists>r n sp newCredentials k.
       trace (Create ?A testData) =
         [Lock r n, CallGet sp, CallUpdate sp newCredentials] @ replicate k (CallGet sp) @ [Unlock r n] \<and>
       UpdateServicePrincipal ?A sp newCredentials = None"
    by blast
  from timeout_follows_write [of ?D testData "[Str ''ab12'', SpId (NewServicePrincipalID ''sp1'')]"] b
  have wd: "\<exists>r n sp newCredentials k.
       trace (Delete ?D testData) =
         [Lock r n, CallGet sp, CallUpdate sp newCredentials] @ replicate k (CallGet sp) @ [Unlock r n] \<and>
       UpdateServicePrincipal ?D sp newCredentials = None"
    by blast
  show ?thesis by (intro conjI a wa ta b wd tb)
qed











text \<open>
  C2, evaluated where it fails. Attach: the first fetch shows no credential, every later
  fetch shows the new credential \<open>ab12\<close>; the probe of Create still answers \<open>Waiting\<close>
  and Create ends in the timeout of its poll. Detach: the first fetch shows \<open>ab12\<close>,
  every later fetch shows it gone; the probe of Delete still answers that the credential
  exists and Delete ends in the timeout of its poll.
\<close>

theorem probes_scan_first_fetch:
  "GetServicePrincipal
     (testEnv (\<lambda>n. if n = 0 then principal [] else principal [cert ''ab12'']) (cert ''ab12'') 7)
     1 (NewServicePrincipalID ''sp1'') = principal [cert ''ab12''] \<and>
   createRefresh
     (testEnv (\<lambda>n. if n = 0 then principal [] else principal [cert ''ab12'']) (cert ''ab12'') 7)
     (NewServicePrincipalID ''sp1'') \<lparr>KeyCredentials = Some []\<rparr>
     (NewCredentialID ''sp1'' ''certificate'' ''ab12'') 0 = (None, ''Waiting'', None) \<and>
   diags (Create
     (testEnv (\<lambda>n. if n = 0 then principal [] else principal [cert ''ab12'']) (cert ''ab12'') 7)
     testData) =
     Some (ErrorDiagF (Some TimeoutError) ''Waiting for certificate credential for %s''
            [SpId (NewServicePrincipalID ''sp1'')]) \<and>
   GetServicePrincipal
     (testEnv (\<lambda>n. if n = 0 then principal [cert ''ab12''] else principal []) (cert ''ab12'') 7)
     1 (NewServicePrincipalID ''sp1'') = principal [] \<and>
   deleteProbe
     (testEnv (\<lambda>n. if n = 0 then principal [cert ''ab12''] else principal []) (cert ''ab12'') 7)
     (NewServicePrincipalID ''sp1'') \<lparr>KeyCredentials = Some [cert ''ab12'']\<rparr>
     (NewCredentialID ''sp1'' ''certificate'' ''ab12'') 0 = Inr True \<and>
   diags (Delete
     (testEnv (\<lambda>n. if n = 0 then principal [cert ''ab12''] else principal []) (cert ''ab12'') 7)
     testData) =
     Some (ErrorDiagF (Some TimeoutError)
            ''Waiting for deletion of certificate credential %q from %s''
            [Str ''ab12'', SpId (NewServicePrincipalID ''sp1'')])"
  by (simp add: run_defs)

end
